theory Spec2Isabelle
  imports Complex_Main
begin

section \<open>Time and durations\<close>

text \<open>
  Go's \<open>time.Time\<close> and \<open>time.Duration\<close> belong to the standard library. An instant is
  modelled as its number of nanoseconds since the Unix epoch, a duration as a number of
  nanoseconds. \<open>Sub\<close> saturates at the range of the 64-bit \<open>Duration\<close>, as the library
  documents; the zero \<open>Time\<close> is January 1 of year 1, 00:00:00 UTC. The monotonic clock
  reading is not modelled, and instants are not bounded: the wrap-around of the library's
  64-bit count of seconds, some 292 billion years from now, is outside the model.
\<close>

type_synonym Time = int
type_synonym Duration = int

definition Second :: Duration where
  "Second = 1000000000"

definition maxDuration :: Duration where
  "maxDuration = 9223372036854775807"

definition minDuration :: Duration where
  "minDuration = - 9223372036854775808"

definition zeroTime :: Time where
  "zeroTime = - 62135596800 * 1000000000"

definition IsZero :: "Time \<Rightarrow> bool" where
  "IsZero t = (t = zeroTime)"

definition Sub :: "Time \<Rightarrow> Time \<Rightarrow> Duration" where
  "Sub t u =
     (let d = t - u
      in if d > maxDuration then maxDuration
         else if d < minDuration then minDuration
         else d)"

text \<open>\<open>time.Unix(sec, nsec)\<close> builds an instant, \<open>t.Unix()\<close> reads its seconds.\<close>

definition timeUnix :: "int \<Rightarrow> int \<Rightarrow> Time" where
  "timeUnix sec nsec = sec * 1000000000 + nsec"

definition UnixOf :: "Time \<Rightarrow> int" where
  "UnixOf t = t div 1000000000"

section \<open>Metric descriptors and metrics\<close>

text \<open>
  A \<open>float64\<close> is modelled as a real number: the conversions \<open>float64(x)\<close> of the source
  start from \<open>int32\<close> and \<open>float32\<close> readings and from Unix times in seconds, which a
  \<open>float64\<close> holds exactly (below \<open>2 ^ 53\<close> in magnitude for the seconds).
\<close>

record Desc =
  fqName :: string
  helpText :: string
  variableLabels :: "string list"

definition NewDesc :: "string \<Rightarrow> string \<Rightarrow> string list \<Rightarrow> Desc" where
  "NewDesc name h labels = \<lparr>fqName = name, helpText = h, variableLabels = labels\<rparr>"

datatype ValueType = CounterValue | GaugeValue | UntypedValue

record Metric =
  mdesc :: Desc
  valueType :: ValueType
  metricValue :: real
  labelValues :: "string list"

text \<open>
  \<open>prometheus.NewConstMetric\<close> refuses a list of label values whose length differs from
  the descriptor's list of variable labels. Label values are text; names decoded from
  the upstream JSON are well-formed text by construction of the decoder.
\<close>

definition NewConstMetric ::
  "Desc \<Rightarrow> ValueType \<Rightarrow> real \<Rightarrow> string list \<Rightarrow> string + Metric" where
  "NewConstMetric d vt v lvs =
     (if length lvs \<noteq> length (variableLabels d)
      then Inl ''inconsistent label cardinality''
      else Inr \<lparr>mdesc = d, valueType = vt, metricValue = v, labelValues = lvs\<rparr>)"

definition prefix :: string where
  "prefix = ''netatmo_''"

definition netatmoUpDesc :: Desc where
  "netatmoUpDesc = NewDesc (prefix @ ''up'')
     ''Zero if there was an error during the last refresh try.'' []"

definition refreshPrefix :: string where
  "refreshPrefix = prefix @ ''last_refresh''"

definition refreshTimestampDesc :: Desc where
  "refreshTimestampDesc = NewDesc (refreshPrefix @ ''_time'')
     ''Contains the time of the last refresh try, successful or not.'' []"

definition cacheTimestampDesc :: Desc where
  "cacheTimestampDesc = NewDesc (prefix @ ''cache_updated_time'')
     ''Contains the time of the cached data.'' []"

definition varLabels :: "string list" where
  "varLabels = [''module'', ''station'']"

definition sensorPrefix :: string where
  "sensorPrefix = prefix @ ''sensor_''"

definition updatedDesc :: Desc where
  "updatedDesc = NewDesc (sensorPrefix @ ''updated'')
     ''Timestamp of last update'' varLabels"

definition tempDesc :: Desc where
  "tempDesc = NewDesc (sensorPrefix @ ''temperature_celsius'')
     ''Temperature measurement in celsius'' varLabels"

definition humidityDesc :: Desc where
  "humidityDesc = NewDesc (sensorPrefix @ ''humidity_percent'')
     ''Relative humidity measurement in percent'' varLabels"

definition cotwoDesc :: Desc where
  "cotwoDesc = NewDesc (sensorPrefix @ ''co2_ppm'')
     ''Carbondioxide measurement in parts per million'' varLabels"

definition noiseDesc :: Desc where
  "noiseDesc = NewDesc (sensorPrefix @ ''noise_db'')
     ''Noise measurement in decibels'' varLabels"

definition pressureDesc :: Desc where
  "pressureDesc = NewDesc (sensorPrefix @ ''pressure_mb'')
     ''Atmospheric pressure measurement in millibar'' varLabels"

definition windStrengthDesc :: Desc where
  "windStrengthDesc = NewDesc (sensorPrefix @ ''wind_strength_kph'')
     ''Wind strength in kilometers per hour'' varLabels"

definition windDirectionDesc :: Desc where
  "windDirectionDesc = NewDesc (sensorPrefix @ ''wind_direction_degrees'')
     ''Wind direction in degrees'' varLabels"

definition rainDesc :: Desc where
  "rainDesc = NewDesc (sensorPrefix @ ''rain_amount_mm'')
     ''Rain amount in millimeters'' varLabels"

definition batteryDesc :: Desc where
  "batteryDesc = NewDesc (sensorPrefix @ ''battery_percent'')
     ''Battery remaining life (10: low)'' varLabels"

definition wifiDesc :: Desc where
  "wifiDesc = NewDesc (sensorPrefix @ ''wifi_signal_strength'')
     ''Wifi signal strength (86: bad, 71: avg, 56: good)'' varLabels"

definition rfDesc :: Desc where
  "rfDesc = NewDesc (sensorPrefix @ ''rf_signal_strength'')
     ''RF signal strength (90: lowest, 60: highest)'' varLabels"

section \<open>The upstream data\<close>

text \<open>
  The types of the upstream client, restricted to the fields the collector reads. A nil
  pointer is \<open>None\<close>. The \<open>int32\<close> and \<open>int64\<close> readings are integers, the \<open>float32\<close>
  readings reals; the collector only converts them. The devices and modules of a
  collection are present: a list holds no nil device.
\<close>

record DashboardData =
  Temperature :: "real option"
  Humidity :: "int option"
  CO2 :: "int option"
  Noise :: "int option"
  Pressure :: "real option"
  Rain :: "real option"
  WindAngle :: "int option"
  WindStrength :: "int option"
  LastMeasure :: "int option"

datatype Device = Device
  (StationName: string)
  (ModuleName: string)
  (BatteryPercent: "int option")
  (WifiStatus: "int option")
  (RFStatus: "int option")
  (DashboardData: DashboardData)
  (LinkedModules: "Device list")

datatype DeviceCollection = DeviceCollection (Devices: "Device list")

section \<open>The collector\<close>

text \<open>
  The logger, the client and the lock are left out of the state: the result of
  \<open>client.Read()\<close> is an argument of the refresh, and the sections under the lock are
  single steps.
\<close>

record netatmoCollector =
  refreshInterval :: Duration
  staleThreshold :: Duration
  lastRefresh :: Time
  lastRefreshError :: "string option"
  cacheTimestamp :: Time
  cachedData :: "DeviceCollection option"

text \<open>The collector that \<open>main\<close> builds: every field but the two durations is zero.\<close>

definition initCollector :: "Duration \<Rightarrow> Duration \<Rightarrow> netatmoCollector" where
  "initCollector interval threshold =
     \<lparr>refreshInterval = interval, staleThreshold = threshold, lastRefresh = zeroTime,
      lastRefreshError = None, cacheTimestamp = zeroTime, cachedData = None\<rparr>"

definition Describe :: "netatmoCollector \<Rightarrow> Desc list" where
  "Describe c = [updatedDesc, tempDesc, humidityDesc, cotwoDesc]"

text \<open>
  The channel of metrics is the list of the metrics sent, in order: \<open>sendMetric\<close> returns
  what it sends, nothing when the metric cannot be built.
\<close>

definition sendMetric :: "Desc \<Rightarrow> ValueType \<Rightarrow> real \<Rightarrow> string list \<Rightarrow> Metric list" where
  "sendMetric d vt v lvs =
     (case NewConstMetric d vt v lvs of
        Inl err \<Rightarrow> []
      | Inr m \<Rightarrow> [m])"

definition convertTime :: "Time \<Rightarrow> real" where
  "convertTime t = (if IsZero t then 0 else real_of_int (UnixOf t))"

text \<open>
  \<open>collectData\<close> takes the reading \<open>tnow\<close> of the clock that its \<open>time.Since\<close> makes.
\<close>

definition collectData :: "netatmoCollector \<Rightarrow> Time \<Rightarrow> Device \<Rightarrow> string \<Rightarrow> Metric list" where
  "collectData c tnow device stationName =
     (let moduleName = ModuleName device;
          data = DashboardData device
      in case LastMeasure data of
           None \<Rightarrow> []
         | Some lm \<Rightarrow>
             (let date = timeUnix lm 0
              in if Sub tnow date > staleThreshold c then []
                 else
                   sendMetric updatedDesc CounterValue (real_of_int (UnixOf date))
                     [moduleName, stationName]
                   @ (case Temperature data of None \<Rightarrow> []
                      | Some v \<Rightarrow> sendMetric tempDesc GaugeValue v [moduleName, stationName])
                   @ (case Humidity data of None \<Rightarrow> []
                      | Some v \<Rightarrow>
                          sendMetric humidityDesc GaugeValue (real_of_int v)
                            [moduleName, stationName])
                   @ (case CO2 data of None \<Rightarrow> []
                      | Some v \<Rightarrow>
                          sendMetric cotwoDesc GaugeValue (real_of_int v)
                            [moduleName, stationName])
                   @ (case Noise data of None \<Rightarrow> []
                      | Some v \<Rightarrow>
                          sendMetric noiseDesc GaugeValue (real_of_int v)
                            [moduleName, stationName])
                   @ (case Pressure data of None \<Rightarrow> []
                      | Some v \<Rightarrow> sendMetric pressureDesc GaugeValue v [moduleName, stationName])
                   @ (case WindStrength data of None \<Rightarrow> []
                      | Some v \<Rightarrow>
                          sendMetric windStrengthDesc GaugeValue (real_of_int v)
                            [moduleName, stationName])
                   @ (case WindAngle data of None \<Rightarrow> []
                      | Some v \<Rightarrow>
                          sendMetric windDirectionDesc GaugeValue (real_of_int v)
                            [moduleName, stationName])
                   @ (case Rain data of None \<Rightarrow> []
                      | Some v \<Rightarrow> sendMetric rainDesc GaugeValue v [moduleName, stationName])
                   @ (case BatteryPercent device of None \<Rightarrow> []
                      | Some v \<Rightarrow>
                          sendMetric batteryDesc GaugeValue (real_of_int v)
                            [moduleName, stationName])
                   @ (case WifiStatus device of None \<Rightarrow> []
                      | Some v \<Rightarrow>
                          sendMetric wifiDesc GaugeValue (real_of_int v)
                            [moduleName, stationName])
                   @ (case RFStatus device of None \<Rightarrow> []
                      | Some v \<Rightarrow>
                          sendMetric rfDesc GaugeValue (real_of_int v)
                            [moduleName, stationName])))"

text \<open>
  The two loops of \<open>Collect\<close>. The clock is read once in every call of \<open>collectData\<close>:
  \<open>clk i 0\<close> is the reading for the \<open>i\<close>-th device, \<open>clk i (Suc j)\<close> the reading for its
  \<open>j\<close>-th linked module.
\<close>

fun collectModules ::
  "netatmoCollector \<Rightarrow> (nat \<Rightarrow> Time) \<Rightarrow> nat \<Rightarrow> string \<Rightarrow> Device list \<Rightarrow> Metric list" where
  "collectModules c clk j stationName [] = []"
| "collectModules c clk j stationName (module' # rest) =
     collectData c (clk j) module' stationName
     @ collectModules c clk (Suc j) stationName rest"

fun collectDevices ::
  "netatmoCollector \<Rightarrow> (nat \<Rightarrow> nat \<Rightarrow> Time) \<Rightarrow> nat \<Rightarrow> Device list \<Rightarrow> Metric list" where
  "collectDevices c clk i [] = []"
| "collectDevices c clk i (dev # rest) =
     (let stationName = StationName dev
      in collectData c (clk i 0) dev stationName
         @ collectModules c (clk i) 1 stationName (LinkedModules dev)
         @ collectDevices c clk (Suc i) rest)"

text \<open>
  \<open>Collect\<close> returns the refresh it starts (\<open>go c.refreshData(now)\<close>), if any, and the
  metrics it sends. It reads the collector and never writes it. A scrape is one step of
  the model: all its reads see the state in which the gate was evaluated.
\<close>

definition Collect ::
  "netatmoCollector \<Rightarrow> Time \<Rightarrow> (nat \<Rightarrow> nat \<Rightarrow> Time) \<Rightarrow> Time option \<times> Metric list" where
  "Collect c now clk =
     (let spawned = (if Sub now (lastRefresh c) \<ge> refreshInterval c then Some now else None);
          upValue = (if IsZero (lastRefresh c) \<or> lastRefreshError c \<noteq> None then 0 else 1)
      in (spawned,
          sendMetric netatmoUpDesc GaugeValue upValue []
          @ sendMetric refreshTimestampDesc GaugeValue (convertTime (lastRefresh c)) []
          @ sendMetric cacheTimestampDesc GaugeValue (convertTime (cacheTimestamp c)) []
          @ (case cachedData c of
               None \<Rightarrow> []
             | Some dc \<Rightarrow> collectDevices c clk 0 (Devices dc))))"

text \<open>
  \<open>refreshData\<close> runs in a goroutine of its own. It writes the time of the attempt, then
  waits for \<open>client.Read()\<close>, then applies the result \<open>res\<close>: the two halves are
  \<open>refreshData_begin\<close> and \<open>refreshData_finish\<close>, and \<open>refreshData\<close> is the run that
  nothing interrupts.
\<close>

definition refreshData_begin :: "netatmoCollector \<Rightarrow> Time \<Rightarrow> netatmoCollector" where
  "refreshData_begin c now = c\<lparr>lastRefresh := now\<rparr>"

definition refreshData_finish ::
  "netatmoCollector \<Rightarrow> Time \<Rightarrow> string + DeviceCollection \<Rightarrow> netatmoCollector" where
  "refreshData_finish c now res =
     (case res of
        Inl err \<Rightarrow> c\<lparr>lastRefreshError := Some err\<rparr>
      | Inr devices \<Rightarrow> c\<lparr>cacheTimestamp := now, cachedData := Some devices\<rparr>)"

definition refreshData ::
  "netatmoCollector \<Rightarrow> Time \<Rightarrow> string + DeviceCollection \<Rightarrow> netatmoCollector" where
  "refreshData c now res = refreshData_finish (refreshData_begin c now) now res"

section \<open>Scrapes and refreshes interleaved\<close>

text \<open>
  A running system is the collector and the goroutines that run \<open>refreshData\<close>: one that
  has not yet written the time of its attempt is \<open>Spawned\<close>, one that waits for
  \<open>client.Read()\<close> is \<open>Reading\<close>. The fields \<open>begun\<close> and \<open>completed\<close> are history: the
  attempts that have written their time, and the outcome (success or not) of every
  refresh that has finished, both in order.
\<close>

datatype goroutine = Spawned Time | Reading Time

record system =
  collector :: netatmoCollector
  goroutines :: "goroutine list"
  begun :: "Time list"
  completed :: "bool list"

datatype event =
    Scrape Time
  | Begin nat
  | Finish nat "string + DeviceCollection"

definition initSystem :: "Duration \<Rightarrow> Duration \<Rightarrow> system" where
  "initSystem interval threshold =
     \<lparr>collector = initCollector interval threshold, goroutines = [], begun = [],
      completed = []\<rparr>"

fun succeeded :: "string + DeviceCollection \<Rightarrow> bool" where
  "succeeded (Inl err) = False"
| "succeeded (Inr devices) = True"

fun step :: "system \<Rightarrow> event \<Rightarrow> system" where
  "step s (Scrape now) =
     (case fst (Collect (collector s) now (\<lambda>i j. now)) of
        None \<Rightarrow> s
      | Some t \<Rightarrow> s\<lparr>goroutines := goroutines s @ [Spawned t]\<rparr>)"
| "step s (Begin k) =
     (if k < length (goroutines s)
      then (case goroutines s ! k of
              Spawned t \<Rightarrow>
                s\<lparr>collector := refreshData_begin (collector s) t,
                  goroutines := (goroutines s)[k := Reading t],
                  begun := begun s @ [t]\<rparr>
            | Reading t \<Rightarrow> s)
      else s)"
| "step s (Finish k res) =
     (if k < length (goroutines s)
      then (case goroutines s ! k of
              Spawned t \<Rightarrow> s
            | Reading t \<Rightarrow>
                s\<lparr>collector := refreshData_finish (collector s) t res,
                  goroutines := take k (goroutines s) @ drop (Suc k) (goroutines s),
                  completed := completed s @ [succeeded res]\<rparr>)
      else s)"

definition run :: "system \<Rightarrow> event list \<Rightarrow> system" where
  "run s evs = foldl step s evs"

section \<open>Notions used to state the properties\<close>

text \<open>
  The observations that a sample holds for one descriptor, in order, then their values and
  their label values.
\<close>

definition withDesc :: "Desc \<Rightarrow> Metric list \<Rightarrow> Metric list" where
  "withDesc d sample = filter (\<lambda>m. mdesc m = d) sample"

definition observed :: "Desc \<Rightarrow> Metric list \<Rightarrow> real list" where
  "observed d sample = map metricValue (withDesc d sample)"

definition observedLabels :: "Desc \<Rightarrow> Metric list \<Rightarrow> string list list" where
  "observedLabels d sample = map labelValues (withDesc d sample)"

text \<open>The metric with a module label and a station label.\<close>

definition sensorMetric :: "Desc \<Rightarrow> ValueType \<Rightarrow> real \<Rightarrow> string \<Rightarrow> string \<Rightarrow> Metric" where
  "sensorMetric d vt v moduleName stationName =
     \<lparr>mdesc = d, valueType = vt, metricValue = v, labelValues = [moduleName, stationName]\<rparr>"

text \<open>The metric without labels.\<close>

definition plainGauge :: "Desc \<Rightarrow> real \<Rightarrow> Metric" where
  "plainGauge d v = \<lparr>mdesc = d, valueType = GaugeValue, metricValue = v, labelValues = []\<rparr>"

text \<open>
  The eleven optional readings of an entity, each with the descriptor of its gauge, in the
  order of the metrics table.
\<close>

definition optionalFields :: "Device \<Rightarrow> (Desc \<times> real option) list" where
  "optionalFields d =
     [(tempDesc, Temperature (DashboardData d)),
      (humidityDesc, map_option real_of_int (Humidity (DashboardData d))),
      (cotwoDesc, map_option real_of_int (CO2 (DashboardData d))),
      (noiseDesc, map_option real_of_int (Noise (DashboardData d))),
      (pressureDesc, Pressure (DashboardData d)),
      (windStrengthDesc, map_option real_of_int (WindStrength (DashboardData d))),
      (windDirectionDesc, map_option real_of_int (WindAngle (DashboardData d))),
      (rainDesc, Rain (DashboardData d)),
      (batteryDesc, map_option real_of_int (BatteryPercent d)),
      (wifiDesc, map_option real_of_int (WifiStatus d)),
      (rfDesc, map_option real_of_int (RFStatus d))]"

fun gaugeOf :: "string \<Rightarrow> string \<Rightarrow> Desc \<times> real option \<Rightarrow> Metric list" where
  "gaugeOf moduleName stationName (d, None) = []"
| "gaugeOf moduleName stationName (d, Some v) =
     [sensorMetric d GaugeValue v moduleName stationName]"

definition sensorGauges :: "Desc list" where
  "sensorGauges =
     [tempDesc, humidityDesc, cotwoDesc, noiseDesc, pressureDesc, windStrengthDesc,
      windDirectionDesc, rainDesc, batteryDesc, wifiDesc, rfDesc]"

definition metricsTable :: "Desc list" where
  "metricsTable =
     [netatmoUpDesc, refreshTimestampDesc, cacheTimestampDesc, updatedDesc] @ sensorGauges"

text \<open>
  An entity is fresh at a reading of the clock when it has a time of measurement that is
  no older than the threshold.
\<close>

definition fresh :: "netatmoCollector \<Rightarrow> Time \<Rightarrow> Device \<Rightarrow> bool" where
  "fresh c tnow d =
     (case LastMeasure (DashboardData d) of
        None \<Rightarrow> False
      | Some lm \<Rightarrow> Sub tnow (timeUnix lm 0) \<le> staleThreshold c)"

text \<open>
  The entities of a snapshot in the order of the two loops: every station, then its
  modules, each with the reading of the clock made for it and the name of its station.
\<close>

fun moduleEntities ::
  "(nat \<Rightarrow> Time) \<Rightarrow> nat \<Rightarrow> string \<Rightarrow> Device list \<Rightarrow> (Time \<times> Device \<times> string) list" where
  "moduleEntities clk j stationName [] = []"
| "moduleEntities clk j stationName (m # rest) =
     (clk j, m, stationName) # moduleEntities clk (Suc j) stationName rest"

fun entities ::
  "(nat \<Rightarrow> nat \<Rightarrow> Time) \<Rightarrow> nat \<Rightarrow> Device list \<Rightarrow> (Time \<times> Device \<times> string) list" where
  "entities clk i [] = []"
| "entities clk i (dev # rest) =
     (clk i 0, dev, StationName dev)
     # moduleEntities (clk i) 1 (StationName dev) (LinkedModules dev)
     @ entities clk (Suc i) rest"

fun entityFresh :: "netatmoCollector \<Rightarrow> Time \<times> Device \<times> string \<Rightarrow> bool" where
  "entityFresh c (tnow, d, stationName) = fresh c tnow d"

fun entityLabels :: "Time \<times> Device \<times> string \<Rightarrow> string list" where
  "entityLabels (tnow, d, stationName) = [ModuleName d, stationName]"

definition moduleCount :: "Device list \<Rightarrow> nat" where
  "moduleCount devs = sum_list (map (\<lambda>dev. length (LinkedModules dev)) devs)"

text \<open>Every reading of the clock is a time after the zero time.\<close>

fun clockOK :: "event \<Rightarrow> bool" where
  "clockOK (Scrape now) = (\<not> IsZero now)"
| "clockOK (Begin k) = True"
| "clockOK (Finish k res) = True"

definition constClock :: "Time \<Rightarrow> nat \<Rightarrow> nat \<Rightarrow> Time" where
  "constClock t i j = t"

section \<open>Concrete data\<close>

definition noData :: DashboardData where
  "noData =
     \<lparr>Temperature = None, Humidity = None, CO2 = None, Noise = None, Pressure = None,
      Rain = None, WindAngle = None, WindStrength = None, LastMeasure = None\<rparr>"

definition t0 :: Time where
  "t0 = timeUnix 1700000000 0"

definition outdoorModule :: Device where
  "outdoorModule =
     Device [] ''Outdoor'' (Some 80) None (Some 70)
       (noData\<lparr>Temperature := Some 4, Humidity := Some 91, LastMeasure := Some 1700000000\<rparr>)
       []"

definition rainModule :: Device where
  "rainModule =
     Device [] ''Outdoor'' (Some 64) None (Some 82)
       (noData\<lparr>Rain := Some 0.5, LastMeasure := Some 1700000000\<rparr>)
       []"

definition homeStation :: Device where
  "homeStation =
     Device ''Home'' ''Indoor'' None (Some 56) None
       (noData\<lparr>Temperature := Some 21.5, CO2 := Some 600, LastMeasure := Some 1700000000\<rparr>)
       [outdoorModule, rainModule]"

definition cabinStation :: Device where
  "cabinStation =
     Device ''Cabin'' ''Kitchen'' None (Some 71) None
       (noData\<lparr>Temperature := Some 18, LastMeasure := Some 1700000000\<rparr>)
       [outdoorModule]"

definition silentModule :: Device where
  "silentModule = Device [] ''Cellar'' (Some 50) (Some 60) (Some 75) noData []"

definition homeData :: DeviceCollection where
  "homeData = DeviceCollection [homeStation]"

definition cabinData :: DeviceCollection where
  "cabinData = DeviceCollection [cabinStation]"

definition minute :: Duration where
  "minute = 60 * Second"

text \<open>
  A collector with a refresh every minute and a threshold of two minutes, after one
  refresh at \<open>t0\<close> that succeeded.
\<close>

definition homeCollector :: netatmoCollector where
  "homeCollector = refreshData (initCollector minute (2 * minute)) t0 (Inr homeData)"

definition cabinCollector :: netatmoCollector where
  "cabinCollector = refreshData (initCollector minute (2 * minute)) t0 (Inr cabinData)"

section \<open>Lemmas on descriptors and single metrics\<close>

lemmas desc_defs =
  netatmoUpDesc_def refreshTimestampDesc_def cacheTimestampDesc_def updatedDesc_def
  tempDesc_def humidityDesc_def cotwoDesc_def noiseDesc_def pressureDesc_def
  windStrengthDesc_def windDirectionDesc_def rainDesc_def batteryDesc_def wifiDesc_def
  rfDesc_def NewDesc_def prefix_def refreshPrefix_def sensorPrefix_def varLabels_def

lemmas time_defs =
  Sub_def Let_def minute_def Second_def t0_def timeUnix_def zeroTime_def maxDuration_def
  minDuration_def IsZero_def

lemma distinct_metricsTable: "distinct metricsTable"
  by (simp add: metricsTable_def sensorGauges_def desc_defs)

lemma header_labels:
  "variableLabels netatmoUpDesc = []"
  "variableLabels refreshTimestampDesc = []"
  "variableLabels cacheTimestampDesc = []"
  by (simp_all add: netatmoUpDesc_def refreshTimestampDesc_def cacheTimestampDesc_def
      NewDesc_def)

lemma sensor_labels:
  "variableLabels updatedDesc = varLabels" "variableLabels tempDesc = varLabels"
  "variableLabels humidityDesc = varLabels" "variableLabels cotwoDesc = varLabels"
  "variableLabels noiseDesc = varLabels" "variableLabels pressureDesc = varLabels"
  "variableLabels windStrengthDesc = varLabels" "variableLabels windDirectionDesc = varLabels"
  "variableLabels rainDesc = varLabels" "variableLabels batteryDesc = varLabels"
  "variableLabels wifiDesc = varLabels" "variableLabels rfDesc = varLabels"
  by (simp_all add: updatedDesc_def tempDesc_def humidityDesc_def cotwoDesc_def noiseDesc_def
      pressureDesc_def windStrengthDesc_def windDirectionDesc_def rainDesc_def
      batteryDesc_def wifiDesc_def rfDesc_def NewDesc_def)

lemma header_not_gauge:
  "netatmoUpDesc \<notin> set sensorGauges" "refreshTimestampDesc \<notin> set sensorGauges"
  "cacheTimestampDesc \<notin> set sensorGauges"
  by (simp_all add: sensorGauges_def desc_defs)

lemma updated_not_gauge: "updatedDesc \<notin> set sensorGauges"
  by (simp add: sensorGauges_def desc_defs)

text \<open>With the right number of label values, \<open>sendMetric\<close> sends its metric.\<close>

lemma sendMetric_plain:
  "variableLabels d = [] \<Longrightarrow> sendMetric d GaugeValue v [] = [plainGauge d v]"
  by (simp add: sendMetric_def NewConstMetric_def plainGauge_def)

lemma sendMetric_sensor:
  "variableLabels d = varLabels \<Longrightarrow> sendMetric d vt v [a, b] = [sensorMetric d vt v a b]"
  by (simp add: sendMetric_def NewConstMetric_def varLabels_def sensorMetric_def)

lemma gaugeOf_real:
  "variableLabels d = varLabels \<Longrightarrow>
   (case x of None \<Rightarrow> [] | Some v \<Rightarrow> sendMetric d GaugeValue v [a, b]) = gaugeOf a b (d, x)"
  by (cases x) (simp_all add: sendMetric_sensor)

lemma gaugeOf_int:
  "variableLabels d = varLabels \<Longrightarrow>
   (case x of None \<Rightarrow> [] | Some v \<Rightarrow> sendMetric d GaugeValue (real_of_int v) [a, b])
     = gaugeOf a b (d, map_option real_of_int x)"
  by (cases x) (simp_all add: sendMetric_sensor)

lemma UnixOf_timeUnix: "UnixOf (timeUnix sec 0) = sec"
  by (simp add: UnixOf_def timeUnix_def)

text \<open>
  For an interval inside the range of \<open>Duration\<close>, the saturation of \<open>Sub\<close> does not
  change a comparison with it.
\<close>

lemma Sub_exact:
  "minDuration < iv \<Longrightarrow> iv \<le> maxDuration \<Longrightarrow> (iv \<le> Sub t u) = (iv \<le> t - u)"
  by (auto simp: Sub_def Let_def)

section \<open>Lemmas on \<open>collectData\<close>\<close>

lemma collectData_absent:
  "LastMeasure (DashboardData d) = None \<Longrightarrow> collectData c tnow d st = []"
  by (simp add: collectData_def)

lemma collectData_stale:
  "LastMeasure (DashboardData d) = Some lm \<Longrightarrow> staleThreshold c < Sub tnow (timeUnix lm 0)
    \<Longrightarrow> collectData c tnow d st = []"
  by (simp add: collectData_def)

lemma collectData_fresh:
  assumes "LastMeasure (DashboardData d) = Some lm"
    and "Sub tnow (timeUnix lm 0) \<le> staleThreshold c"
  shows "collectData c tnow d st =
     sensorMetric updatedDesc CounterValue (real_of_int lm) (ModuleName d) st
     # concat (map (gaugeOf (ModuleName d) st) (optionalFields d))"
  using assms
  by (simp add: collectData_def Let_def sendMetric_sensor sensor_labels UnixOf_timeUnix
      gaugeOf_real gaugeOf_int optionalFields_def)

lemma collectData_cases:
  "collectData c tnow d st =
     (if fresh c tnow d
      then sensorMetric updatedDesc CounterValue
             (real_of_int (the (LastMeasure (DashboardData d)))) (ModuleName d) st
           # concat (map (gaugeOf (ModuleName d) st) (optionalFields d))
      else [])"
  by (cases "LastMeasure (DashboardData d)")
     (auto simp: fresh_def collectData_absent collectData_stale collectData_fresh)

lemma gaugeOf_props:
  "m \<in> set (gaugeOf a b (d, x)) \<Longrightarrow> mdesc m = d \<and> labelValues m = [a, b]"
  by (cases x) (simp_all add: sensorMetric_def)

lemma gauges_props:
  "m \<in> set (concat (map (gaugeOf a b) (optionalFields d))) \<Longrightarrow>
     mdesc m \<in> set sensorGauges \<and> labelValues m = [a, b]"
  by (auto simp: optionalFields_def sensorGauges_def dest!: gaugeOf_props)

lemma withDesc_gauges:
  "withDesc updatedDesc (concat (map (gaugeOf a b) (optionalFields d))) = []"
  unfolding withDesc_def filter_empty_conv
  using gauges_props updated_not_gauge by metis

lemma collectData_member:
  assumes "m \<in> set (collectData c tnow d st)"
  shows "fresh c tnow d \<and> labelValues m = [ModuleName d, st]
     \<and> (mdesc m = updatedDesc \<or> mdesc m \<in> set sensorGauges)
     \<and> sensorMetric updatedDesc CounterValue (real_of_int (the (LastMeasure (DashboardData d))))
          (ModuleName d) st \<in> set (collectData c tnow d st)"
proof (cases "fresh c tnow d")
  case False
  with assms show ?thesis by (simp add: collectData_cases)
next
  case True
  with assms have "m = sensorMetric updatedDesc CounterValue
        (real_of_int (the (LastMeasure (DashboardData d)))) (ModuleName d) st
      \<or> m \<in> set (concat (map (gaugeOf (ModuleName d) st) (optionalFields d)))"
    by (simp add: collectData_cases)
  then show ?thesis
  proof
    assume "m = sensorMetric updatedDesc CounterValue
        (real_of_int (the (LastMeasure (DashboardData d)))) (ModuleName d) st"
    with True show ?thesis by (simp add: collectData_cases sensorMetric_def)
  next
    assume "m \<in> set (concat (map (gaugeOf (ModuleName d) st) (optionalFields d)))"
    from gauges_props [OF this] True show ?thesis by (simp add: collectData_cases)
  qed
qed

lemma withDesc_updated_collectData:
  "withDesc updatedDesc (collectData c tnow d st) =
     (if fresh c tnow d
      then [sensorMetric updatedDesc CounterValue
              (real_of_int (the (LastMeasure (DashboardData d)))) (ModuleName d) st]
      else [])"
proof -
  have "withDesc updatedDesc (sensorMetric updatedDesc vt v a b # ys) =
      sensorMetric updatedDesc vt v a b # withDesc updatedDesc ys" for vt v a b ys
    by (simp add: withDesc_def sensorMetric_def)
  moreover have "withDesc updatedDesc [] = []"
    by (simp add: withDesc_def)
  ultimately show ?thesis
    by (simp add: collectData_cases withDesc_gauges)
qed

section \<open>Lemmas on the loops and on \<open>Collect\<close>\<close>

text \<open>The loops call \<open>collectData\<close> once for every entity, in order.\<close>

lemma collectModules_entities:
  "collectModules c clk j st ms =
     concat (map (\<lambda>(t, d, s). collectData c t d s) (moduleEntities clk j st ms))"
  by (induction ms arbitrary: j) simp_all

lemma collectDevices_entities:
  "collectDevices c clk i devs =
     concat (map (\<lambda>(t, d, s). collectData c t d s) (entities clk i devs))"
  by (induction devs arbitrary: i) (simp_all add: Let_def collectModules_entities)

lemma length_moduleEntities: "length (moduleEntities clk j st ms) = length ms"
  by (induction ms arbitrary: j) simp_all

lemma length_entities: "length (entities clk i devs) = length devs + moduleCount devs"
  by (induction devs arbitrary: i) (simp_all add: moduleCount_def length_moduleEntities)

lemma withDesc_append: "withDesc d (xs @ ys) = withDesc d xs @ withDesc d ys"
  by (simp add: withDesc_def)

lemma observedLabels_entities:
  "observedLabels updatedDesc (concat (map (\<lambda>(t, d, s). collectData c t d s) es)) =
     map entityLabels (filter (entityFresh c) es)"
proof (induction es)
  case Nil
  show ?case by (simp add: observedLabels_def withDesc_def)
next
  case (Cons e es)
  obtain t d s where e: "e = (t, d, s)" by (cases e) auto
  from Cons show ?case
    by (simp add: e observedLabels_def withDesc_append withDesc_updated_collectData
        sensorMetric_def)
qed

lemma Collect_spawn:
  "fst (Collect c now clk) =
     (if refreshInterval c \<le> Sub now (lastRefresh c) then Some now else None)"
  by (simp add: Collect_def Let_def)

lemma Collect_sample:
  "snd (Collect c now clk) =
     [plainGauge netatmoUpDesc
        (if IsZero (lastRefresh c) \<or> lastRefreshError c \<noteq> None then 0 else 1),
      plainGauge refreshTimestampDesc (convertTime (lastRefresh c)),
      plainGauge cacheTimestampDesc (convertTime (cacheTimestamp c))]
     @ concat (map (\<lambda>(t, d, s). collectData c t d s)
         (case cachedData c of None \<Rightarrow> [] | Some dc \<Rightarrow> entities clk 0 (Devices dc)))"
  by (cases "cachedData c")
     (simp_all add: Collect_def Let_def sendMetric_plain header_labels
        collectDevices_entities)

lemma withDesc_updated_header:
  "withDesc updatedDesc (plainGauge netatmoUpDesc a # plainGauge refreshTimestampDesc b #
      plainGauge cacheTimestampDesc x # xs) = withDesc updatedDesc xs"
  by (simp add: withDesc_def plainGauge_def desc_defs)

lemma observedLabels_Collect:
  assumes "cachedData c = Some dc"
  shows "observedLabels updatedDesc (snd (Collect c now clk)) =
     map entityLabels (filter (entityFresh c) (entities clk 0 (Devices dc)))"
  using assms observedLabels_entities [of c "entities clk 0 (Devices dc)"]
  by (simp add: Collect_sample observedLabels_def withDesc_updated_header)

lemma withDesc_up_entities:
  "withDesc netatmoUpDesc (concat (map (\<lambda>(t, d, s). collectData c t d s) es)) = []"
proof -
  have "netatmoUpDesc \<noteq> updatedDesc" by (simp add: desc_defs)
  with header_not_gauge(1) collectData_member show ?thesis
    unfolding withDesc_def filter_empty_conv by fastforce
qed

lemma observed_up:
  "observed netatmoUpDesc (snd (Collect c now clk)) =
     [if IsZero (lastRefresh c) \<or> lastRefreshError c \<noteq> None then 0 else 1]"
proof -
  have "withDesc netatmoUpDesc (plainGauge netatmoUpDesc a # plainGauge refreshTimestampDesc b
      # plainGauge cacheTimestampDesc x # xs) = plainGauge netatmoUpDesc a # withDesc netatmoUpDesc xs"
    for a b x xs
    by (simp add: withDesc_def plainGauge_def desc_defs)
  then show ?thesis
    by (simp add: observed_def Collect_sample withDesc_up_entities plainGauge_def)
qed

section \<open>Lemmas on the refresh and on runs\<close>

lemma refreshData_success:
  "refreshData c now (Inr devices) =
     c\<lparr>lastRefresh := now, cacheTimestamp := now, cachedData := Some devices\<rparr>"
  by (simp add: refreshData_def refreshData_begin_def refreshData_finish_def)

lemma refreshData_failure:
  "refreshData c now (Inl err) = c\<lparr>lastRefresh := now, lastRefreshError := Some err\<rparr>"
  by (simp add: refreshData_def refreshData_begin_def refreshData_finish_def)

text \<open>
  Along a run: a goroutine never carries the zero time, the time of the last attempt is
  zero exactly when no refresh has begun, and an error is recorded exactly when some
  refresh has failed.
\<close>

lemma step_inv:
  assumes "clockOK ev"
    and "\<forall>t. Spawned t \<in> set (goroutines s) \<longrightarrow> \<not> IsZero t"
    and "IsZero (lastRefresh (collector s)) \<longleftrightarrow> begun s = []"
    and "lastRefreshError (collector s) \<noteq> None \<longleftrightarrow> False \<in> set (completed s)"
  shows "(\<forall>t. Spawned t \<in> set (goroutines (step s ev)) \<longrightarrow> \<not> IsZero t)
     \<and> (IsZero (lastRefresh (collector (step s ev))) \<longleftrightarrow> begun (step s ev) = [])
     \<and> (lastRefreshError (collector (step s ev)) \<noteq> None
          \<longleftrightarrow> False \<in> set (completed (step s ev)))"
proof (cases ev)
  case (Scrape now)
  with assms show ?thesis by (auto simp: Collect_spawn)
next
  case (Begin k)
  show ?thesis
  proof (cases "k < length (goroutines s)")
    case False
    with Begin assms show ?thesis by simp
  next
    case True
    show ?thesis
    proof (cases "goroutines s ! k")
      case (Reading t)
      with True Begin assms show ?thesis by simp
    next
      case (Spawned t)
      with True have "Spawned t \<in> set (goroutines s)" by (metis nth_mem)
      with assms have nz: "\<not> IsZero t" by blast
      have "\<And>u. Spawned u \<in> set ((goroutines s)[k := Reading t])
          \<Longrightarrow> Spawned u \<in> set (goroutines s)"
        using set_update_subset_insert [of "goroutines s" k "Reading t"] by auto
      with Spawned True Begin assms nz show ?thesis
        by (auto simp: refreshData_begin_def)
    qed
  qed
next
  case (Finish k res)
  show ?thesis
  proof (cases "k < length (goroutines s)")
    case False
    with Finish assms show ?thesis by simp
  next
    case True
    show ?thesis
    proof (cases "goroutines s ! k")
      case (Spawned t)
      with True Finish assms show ?thesis by simp
    next
      case (Reading t)
      have "\<And>u. Spawned u \<in> set (take k (goroutines s))
            \<or> Spawned u \<in> set (drop (Suc k) (goroutines s))
          \<Longrightarrow> Spawned u \<in> set (goroutines s)"
        by (meson in_set_takeD in_set_dropD)
      with Reading True Finish assms show ?thesis
        by (cases res) (auto simp: refreshData_finish_def)
    qed
  qed
qed

lemma run_inv:
  assumes "\<forall>ev \<in> set evs. clockOK ev"
    and "\<forall>t. Spawned t \<in> set (goroutines s) \<longrightarrow> \<not> IsZero t"
    and "IsZero (lastRefresh (collector s)) \<longleftrightarrow> begun s = []"
    and "lastRefreshError (collector s) \<noteq> None \<longleftrightarrow> False \<in> set (completed s)"
  shows "(IsZero (lastRefresh (collector (run s evs))) \<longleftrightarrow> begun (run s evs) = [])
     \<and> (lastRefreshError (collector (run s evs)) \<noteq> None
          \<longleftrightarrow> False \<in> set (completed (run s evs)))"
  using assms
proof (induction evs arbitrary: s)
  case Nil
  then show ?case by (simp add: run_def)
next
  case (Cons ev evs)
  from Cons.prems have ok: "clockOK ev" and rest: "\<forall>e \<in> set evs. clockOK e" by simp_all
  from step_inv [OF ok Cons.prems(2,3,4)] Cons.IH [OF rest, of "step s ev"]
  show ?case by (simp add: run_def)
qed

text \<open>The concrete collectors and their samples one second after the refresh.\<close>

lemmas data_defs =
  homeCollector_def cabinCollector_def homeData_def cabinData_def homeStation_def
  cabinStation_def outdoorModule_def rainModule_def silentModule_def noData_def
  initCollector_def refreshData_success

lemma homeCollector_fresh:
  "list_all (entityFresh homeCollector) (entities (constClock (t0 + Second)) 0 (Devices homeData))"
  by (simp add: data_defs fresh_def constClock_def time_defs)

lemma cabinCollector_fresh:
  "list_all (entityFresh cabinCollector)
     (entities (constClock (t0 + Second)) 0 (Devices cabinData))"
  by (simp add: data_defs fresh_def constClock_def time_defs)

lemma homeCollector_sample:
  "snd (Collect homeCollector (t0 + Second) (constClock (t0 + Second))) =
     [plainGauge netatmoUpDesc 1,
      plainGauge refreshTimestampDesc 1700000000,
      plainGauge cacheTimestampDesc 1700000000,
      sensorMetric updatedDesc CounterValue 1700000000 ''Indoor'' ''Home'',
      sensorMetric tempDesc GaugeValue 21.5 ''Indoor'' ''Home'',
      sensorMetric cotwoDesc GaugeValue 600 ''Indoor'' ''Home'',
      sensorMetric wifiDesc GaugeValue 56 ''Indoor'' ''Home'',
      sensorMetric updatedDesc CounterValue 1700000000 ''Outdoor'' ''Home'',
      sensorMetric tempDesc GaugeValue 4 ''Outdoor'' ''Home'',
      sensorMetric humidityDesc GaugeValue 91 ''Outdoor'' ''Home'',
      sensorMetric batteryDesc GaugeValue 80 ''Outdoor'' ''Home'',
      sensorMetric rfDesc GaugeValue 70 ''Outdoor'' ''Home'',
      sensorMetric updatedDesc CounterValue 1700000000 ''Outdoor'' ''Home'',
      sensorMetric rainDesc GaugeValue 0.5 ''Outdoor'' ''Home'',
      sensorMetric batteryDesc GaugeValue 64 ''Outdoor'' ''Home'',
      sensorMetric rfDesc GaugeValue 82 ''Outdoor'' ''Home'']"
  by (simp add: Collect_sample data_defs collectData_cases fresh_def optionalFields_def
      constClock_def convertTime_def UnixOf_def time_defs)

section \<open>The claims\<close>

text \<open>
  C1, as the code has it: a scrape starts a refresh exactly when
  \<open>now.Sub(lastRefresh) >= refreshInterval\<close>. The gate reads two fields and the clock,
  nothing else: the collector has no flag for a refresh in progress, so the goroutines
  of the system do not enter the decision, and a scrape leaves the collector as it was.
\<close>

theorem C1_gate_is_interval_only:
  "(fst (Collect (collector s) now clk) = Some now) =
      (refreshInterval (collector s) \<le> Sub now (lastRefresh (collector s)))
   \<and> (fst (Collect (collector s) now clk) = None) =
      (Sub now (lastRefresh (collector s)) < refreshInterval (collector s))
   \<and> goroutines (step s (Scrape now)) =
      (if refreshInterval (collector s) \<le> Sub now (lastRefresh (collector s))
       then goroutines s @ [Spawned now] else goroutines s)
   \<and> collector (step s (Scrape now)) = collector s"
  by (auto simp add: Collect_spawn)

text \<open>
  The gate opens while a refresh is in progress: a refresh that began at \<open>t0\<close> still
  waits for the upstream when a scrape comes one interval later, and the scrape starts
  another.
\<close>

theorem C1_gate_opens_during_refresh:
  "goroutines (run (initSystem minute (2 * minute)) [Scrape t0, Begin 0]) = [Reading t0]
   \<and> fst (Collect (collector (run (initSystem minute (2 * minute)) [Scrape t0, Begin 0]))
        (t0 + minute) (constClock (t0 + minute))) = Some (t0 + minute)"
  by (simp add: run_def initSystem_def initCollector_def Collect_spawn time_defs
      refreshData_begin_def)




text \<open>
  C3, at the input where the code departs from it: a refresh fails, the next one
  succeeds. The success publishes the new snapshot, and the error of the failed refresh
  stays recorded; the up gauge stays at zero.
\<close>

theorem C3_success_keeps_old_error:
  "lastRefreshError (refreshData_finish
       (refreshData (initCollector minute (2 * minute)) t0 (Inl ''timeout''))
       (t0 + minute) (Inr homeData)) = Some ''timeout''
   \<and> cachedData (refreshData_finish
       (refreshData (initCollector minute (2 * minute)) t0 (Inl ''timeout''))
       (t0 + minute) (Inr homeData)) = Some homeData
   \<and> observed netatmoUpDesc (snd (Collect
       (refreshData (refreshData (initCollector minute (2 * minute)) t0 (Inl ''timeout''))
          (t0 + minute) (Inr homeData))
       (t0 + minute + Second) (constClock (t0 + minute + Second)))) = [0]"
  unfolding observed_up
  by (simp add: refreshData_failure refreshData_success refreshData_finish_def
      initCollector_def)

text \<open>
  C4, as the code has it, along every run from the start in which the clock never
  reads the zero time: the up gauge is 0 when no refresh has begun, and when the last
  refresh that completed failed; it is 1 when a refresh has begun and no refresh has
  failed. A refresh has begun once it has written the time of its attempt, before it
  completes.
\<close>

theorem C4_up_gauge:
  assumes "\<forall>ev \<in> set evs. clockOK ev"
  shows "(begun (run (initSystem iv th) evs) = [] \<longrightarrow>
            observed netatmoUpDesc
              (snd (Collect (collector (run (initSystem iv th) evs)) now clk)) = [0])
     \<and> (completed (run (initSystem iv th) evs) \<noteq> []
          \<and> \<not> last (completed (run (initSystem iv th) evs)) \<longrightarrow>
            observed netatmoUpDesc
              (snd (Collect (collector (run (initSystem iv th) evs)) now clk)) = [0])
     \<and> (begun (run (initSystem iv th) evs) \<noteq> []
          \<and> (\<forall>b \<in> set (completed (run (initSystem iv th) evs)). b) \<longrightarrow>
            observed netatmoUpDesc
              (snd (Collect (collector (run (initSystem iv th) evs)) now clk)) = [1])"
proof -
  let ?s = "run (initSystem iv th) evs"
  have "(IsZero (lastRefresh (collector ?s)) \<longleftrightarrow> begun ?s = [])
     \<and> (lastRefreshError (collector ?s) \<noteq> None \<longleftrightarrow> False \<in> set (completed ?s))"
    by (rule run_inv [OF assms]) (simp_all add: initSystem_def initCollector_def IsZero_def)
  moreover have "completed ?s \<noteq> [] \<and> \<not> last (completed ?s) \<Longrightarrow> False \<in> set (completed ?s)"
    using last_in_set by fastforce
  ultimately show ?thesis
    unfolding observed_up by auto
qed

theorem C4_up_gauge_witness:
  "list_all clockOK []
   \<and> begun (run (initSystem minute (2 * minute)) []) = []
   \<and> observed netatmoUpDesc
       (snd (Collect (collector (run (initSystem minute (2 * minute)) [])) t0 (constClock t0)))
       = [0]
   \<and> list_all clockOK [Scrape t0, Begin 0, Finish 0 (Inl ''timeout'')]
   \<and> completed (run (initSystem minute (2 * minute))
        [Scrape t0, Begin 0, Finish 0 (Inl ''timeout'')]) \<noteq> []
   \<and> \<not> last (completed (run (initSystem minute (2 * minute))
        [Scrape t0, Begin 0, Finish 0 (Inl ''timeout'')]))
   \<and> observed netatmoUpDesc
       (snd (Collect (collector (run (initSystem minute (2 * minute))
          [Scrape t0, Begin 0, Finish 0 (Inl ''timeout'')])) (t0 + Second)
          (constClock (t0 + Second)))) = [0]
   \<and> list_all clockOK [Scrape t0, Begin 0, Finish 0 (Inr homeData)]
   \<and> begun (run (initSystem minute (2 * minute))
        [Scrape t0, Begin 0, Finish 0 (Inr homeData)]) \<noteq> []
   \<and> list_all (\<lambda>b. b) (completed (run (initSystem minute (2 * minute))
        [Scrape t0, Begin 0, Finish 0 (Inr homeData)]))
   \<and> observed netatmoUpDesc
       (snd (Collect (collector (run (initSystem minute (2 * minute))
          [Scrape t0, Begin 0, Finish 0 (Inr homeData)])) (t0 + Second)
          (constClock (t0 + Second)))) = [1]"
proof -
  have run2: "run (initSystem minute (2 * minute))
        [Scrape t0, Begin 0, Finish 0 (Inl ''timeout'')] =
      \<lparr>collector = refreshData (initCollector minute (2 * minute)) t0 (Inl ''timeout''),
       goroutines = [], begun = [t0], completed = [False]\<rparr>"
    by (simp add: run_def initSystem_def initCollector_def Collect_spawn time_defs
        refreshData_def refreshData_begin_def)
  have run3: "run (initSystem minute (2 * minute))
        [Scrape t0, Begin 0, Finish 0 (Inr homeData)] =
      \<lparr>collector = refreshData (initCollector minute (2 * minute)) t0 (Inr homeData),
       goroutines = [], begun = [t0], completed = [True]\<rparr>"
    by (simp add: run_def initSystem_def initCollector_def Collect_spawn time_defs
        refreshData_def refreshData_begin_def)
  have ok1: "\<forall>ev \<in> set []. clockOK ev" by simp
  have ok2: "\<forall>ev \<in> set [Scrape t0, Begin 0, Finish 0 (Inl ''timeout'')]. clockOK ev"
    by (simp add: time_defs)
  have ok3: "\<forall>ev \<in> set [Scrape t0, Begin 0, Finish 0 (Inr homeData)]. clockOK ev"
    by (simp add: time_defs)
  have b1: "begun (run (initSystem minute (2 * minute)) []) = []"
    by (simp add: run_def initSystem_def)
  have c2: "completed (run (initSystem minute (2 * minute))
        [Scrape t0, Begin 0, Finish 0 (Inl ''timeout'')]) \<noteq> []
      \<and> \<not> last (completed (run (initSystem minute (2 * minute))
        [Scrape t0, Begin 0, Finish 0 (Inl ''timeout'')]))"
    by (simp add: run2)
  have b3: "begun (run (initSystem minute (2 * minute))
        [Scrape t0, Begin 0, Finish 0 (Inr homeData)]) \<noteq> []
      \<and> (\<forall>b \<in> set (completed (run (initSystem minute (2 * minute))
        [Scrape t0, Begin 0, Finish 0 (Inr homeData)])). b)"
    by (simp add: run3)
  from C4_up_gauge [OF ok1, of minute "2 * minute" t0 "constClock t0"] b1
  have a: "observed netatmoUpDesc
       (snd (Collect (collector (run (initSystem minute (2 * minute)) [])) t0 (constClock t0)))
       = [0]"
    by blast
  from C4_up_gauge [OF ok2, of minute "2 * minute" "t0 + Second" "constClock (t0 + Second)"] c2
  have b: "observed netatmoUpDesc
       (snd (Collect (collector (run (initSystem minute (2 * minute))
          [Scrape t0, Begin 0, Finish 0 (Inl ''timeout'')])) (t0 + Second)
          (constClock (t0 + Second)))) = [0]"
    by blast
  from C4_up_gauge [OF ok3, of minute "2 * minute" "t0 + Second" "constClock (t0 + Second)"] b3
  have c: "observed netatmoUpDesc
       (snd (Collect (collector (run (initSystem minute (2 * minute))
          [Scrape t0, Begin 0, Finish 0 (Inr homeData)])) (t0 + Second)
          (constClock (t0 + Second)))) = [1]"
    by blast
  from a b c ok1 ok2 ok3 b1 c2 b3 show ?thesis
    unfolding list_all_iff by blast
qed

text \<open>
  The first refresh has begun and waits for the upstream: no refresh has completed,
  and the up gauge is 1.
\<close>

theorem C4_up_before_first_completion:
  "observed netatmoUpDesc
     (snd (Collect (collector (run (initSystem minute (2 * minute)) [Scrape t0, Begin 0]))
        (t0 + Second) (constClock (t0 + Second)))) = [1]
   \<and> completed (run (initSystem minute (2 * minute)) [Scrape t0, Begin 0]) = []"
  unfolding observed_up
  by (simp add: run_def initSystem_def initCollector_def Collect_spawn time_defs
      refreshData_begin_def)

text \<open>
  C5: an entity without a time of measurement sends nothing; an entity whose age
  \<open>tnow.Sub(date)\<close> is above the threshold sends nothing; any other entity, also one
  whose age equals the threshold, sends the updated metric with the time of
  measurement as its value, then one gauge for every optional reading that is present,
  in the order of the table, and nothing for a reading that is absent.
\<close>

theorem C5_entity_metrics:
  "(LastMeasure (DashboardData d) = None \<longrightarrow> collectData c tnow d st = [])
   \<and> (\<forall>lm. LastMeasure (DashboardData d) = Some lm
          \<and> staleThreshold c < Sub tnow (timeUnix lm 0) \<longrightarrow>
        collectData c tnow d st = [])
   \<and> (\<forall>lm. LastMeasure (DashboardData d) = Some lm
          \<and> Sub tnow (timeUnix lm 0) \<le> staleThreshold c \<longrightarrow>
        collectData c tnow d st =
          sensorMetric updatedDesc CounterValue (real_of_int lm) (ModuleName d) st
          # concat (map (gaugeOf (ModuleName d) st) (optionalFields d)))"
  by (simp add: collectData_absent collectData_stale collectData_fresh)

theorem C5_entity_metrics_witness:
  "LastMeasure (DashboardData silentModule) = None
   \<and> collectData homeCollector (t0 + Second) silentModule ''Home'' = []
   \<and> LastMeasure (DashboardData outdoorModule) = Some 1700000000
   \<and> staleThreshold homeCollector < Sub (t0 + 2 * minute + 1) (timeUnix 1700000000 0)
   \<and> collectData homeCollector (t0 + 2 * minute + 1) outdoorModule ''Home'' = []
   \<and> Sub (t0 + 2 * minute) (timeUnix 1700000000 0) = staleThreshold homeCollector
   \<and> collectData homeCollector (t0 + 2 * minute) outdoorModule ''Home'' =
       [sensorMetric updatedDesc CounterValue 1700000000 ''Outdoor'' ''Home'',
        sensorMetric tempDesc GaugeValue 4 ''Outdoor'' ''Home'',
        sensorMetric humidityDesc GaugeValue 91 ''Outdoor'' ''Home'',
        sensorMetric batteryDesc GaugeValue 80 ''Outdoor'' ''Home'',
        sensorMetric rfDesc GaugeValue 70 ''Outdoor'' ''Home'']"
proof -
  have absent: "LastMeasure (DashboardData silentModule) = None"
    by (simp add: silentModule_def noData_def)
  have present: "LastMeasure (DashboardData outdoorModule) = Some 1700000000"
    by (simp add: outdoorModule_def noData_def)
  have stale: "staleThreshold homeCollector < Sub (t0 + 2 * minute + 1) (timeUnix 1700000000 0)"
    by (simp add: data_defs time_defs)
  have edge: "Sub (t0 + 2 * minute) (timeUnix 1700000000 0) = staleThreshold homeCollector"
    by (simp add: data_defs time_defs)
  have fields: "concat (map (gaugeOf (ModuleName outdoorModule) ''Home'')
        (optionalFields outdoorModule)) =
       [sensorMetric tempDesc GaugeValue 4 ''Outdoor'' ''Home'',
        sensorMetric humidityDesc GaugeValue 91 ''Outdoor'' ''Home'',
        sensorMetric batteryDesc GaugeValue 80 ''Outdoor'' ''Home'',
        sensorMetric rfDesc GaugeValue 70 ''Outdoor'' ''Home'']"
    by (simp add: optionalFields_def outdoorModule_def noData_def)
  from C5_entity_metrics [of silentModule homeCollector "t0 + Second" "''Home''"] absent
  have a: "collectData homeCollector (t0 + Second) silentModule ''Home'' = []"
    by blast
  from C5_entity_metrics [of outdoorModule homeCollector "t0 + 2 * minute + 1" "''Home''"]
    present stale
  have b: "collectData homeCollector (t0 + 2 * minute + 1) outdoorModule ''Home'' = []"
    by blast
  from C5_entity_metrics [of outdoorModule homeCollector "t0 + 2 * minute" "''Home''"]
    present edge
  have "collectData homeCollector (t0 + 2 * minute) outdoorModule ''Home'' =
      sensorMetric updatedDesc CounterValue (real_of_int 1700000000) (ModuleName outdoorModule)
        ''Home''
      # concat (map (gaugeOf (ModuleName outdoorModule) ''Home'') (optionalFields outdoorModule))"
    by simp
  then have c: "collectData homeCollector (t0 + 2 * minute) outdoorModule ''Home'' =
       [sensorMetric updatedDesc CounterValue 1700000000 ''Outdoor'' ''Home'',
        sensorMetric tempDesc GaugeValue 4 ''Outdoor'' ''Home'',
        sensorMetric humidityDesc GaugeValue 91 ''Outdoor'' ''Home'',
        sensorMetric batteryDesc GaugeValue 80 ''Outdoor'' ''Home'',
        sensorMetric rfDesc GaugeValue 70 ''Outdoor'' ''Home'']"
    unfolding fields by (simp add: outdoorModule_def)
  from absent present stale edge a b c show ?thesis by blast
qed

text \<open>
  C6, as the code has it: when every entity of the published snapshot has a time of
  measurement that is not stale at the reading of the clock made for it, the sample has
  one updated observation for every station and every module, in the order of the
  snapshot, with the labels (module name of the entity, name of its station). Their
  number is the number of stations plus the number of modules. No two of them carry
  the same pair of labels exactly when no two entities of the snapshot do: the
  collector does not look for duplicates.
\<close>

theorem C6_updated_per_entity:
  assumes "cachedData c = Some dc"
    and "\<forall>e \<in> set (entities clk 0 (Devices dc)). entityFresh c e"
  shows "observedLabels updatedDesc (snd (Collect c now clk)) =
           map entityLabels (entities clk 0 (Devices dc))
       \<and> length (observedLabels updatedDesc (snd (Collect c now clk))) =
           length (Devices dc) + moduleCount (Devices dc)
       \<and> (distinct (observedLabels updatedDesc (snd (Collect c now clk))) \<longleftrightarrow>
           distinct (map entityLabels (entities clk 0 (Devices dc))))"
proof -
  from assms(2)
  have "filter (entityFresh c) (entities clk 0 (Devices dc)) = entities clk 0 (Devices dc)"
    by (simp add: filter_id_conv)
  with observedLabels_Collect [OF assms(1), of now clk]
  have eq: "observedLabels updatedDesc (snd (Collect c now clk)) =
           map entityLabels (entities clk 0 (Devices dc))" by simp
  show ?thesis unfolding eq by (simp add: length_entities)
qed

theorem C6_updated_per_entity_witness:
  "cachedData cabinCollector = Some cabinData
   \<and> list_all (entityFresh cabinCollector)
       (entities (constClock (t0 + Second)) 0 (Devices cabinData))
   \<and> observedLabels updatedDesc
       (snd (Collect cabinCollector (t0 + Second) (constClock (t0 + Second)))) =
       [[''Kitchen'', ''Cabin''], [''Outdoor'', ''Cabin'']]
   \<and> length (observedLabels updatedDesc
       (snd (Collect cabinCollector (t0 + Second) (constClock (t0 + Second))))) = 1 + 1
   \<and> distinct (observedLabels updatedDesc
       (snd (Collect cabinCollector (t0 + Second) (constClock (t0 + Second)))))"
proof -
  have h1: "cachedData cabinCollector = Some cabinData"
    by (simp add: cabinCollector_def refreshData_success)
  have h2: "\<forall>e \<in> set (entities (constClock (t0 + Second)) 0 (Devices cabinData)).
      entityFresh cabinCollector e"
    using cabinCollector_fresh by (simp add: list_all_iff)
  have labels: "map entityLabels (entities (constClock (t0 + Second)) 0 (Devices cabinData)) =
      [[''Kitchen'', ''Cabin''], [''Outdoor'', ''Cabin'']]"
    by (simp add: cabinData_def cabinStation_def outdoorModule_def)
  from C6_updated_per_entity [OF h1 h2, of "t0 + Second"] labels h1 cabinCollector_fresh
  show ?thesis by simp
qed

text \<open>
  A station with two modules of the same name, all three fresh: two of the three
  updated observations carry the same pair of labels.
\<close>

theorem C6_same_labels_twice:
  "cachedData homeCollector = Some homeData
   \<and> list_all (entityFresh homeCollector)
       (entities (constClock (t0 + Second)) 0 (Devices homeData))
   \<and> observedLabels updatedDesc
       (snd (Collect homeCollector (t0 + Second) (constClock (t0 + Second)))) =
       [[''Indoor'', ''Home''], [''Outdoor'', ''Home''], [''Outdoor'', ''Home'']]
   \<and> \<not> distinct (observedLabels updatedDesc
       (snd (Collect homeCollector (t0 + Second) (constClock (t0 + Second)))))"
proof -
  have h1: "cachedData homeCollector = Some homeData"
    by (simp add: homeCollector_def refreshData_success)
  have "filter (entityFresh homeCollector)
        (entities (constClock (t0 + Second)) 0 (Devices homeData)) =
      entities (constClock (t0 + Second)) 0 (Devices homeData)"
    using homeCollector_fresh by (simp add: filter_id_conv list_all_iff)
  with observedLabels_Collect [OF h1, of "t0 + Second" "constClock (t0 + Second)"]
  have "observedLabels updatedDesc
       (snd (Collect homeCollector (t0 + Second) (constClock (t0 + Second)))) =
       [[''Indoor'', ''Home''], [''Outdoor'', ''Home''], [''Outdoor'', ''Home'']]"
    by (simp add: homeData_def homeStation_def outdoorModule_def rainModule_def)
  with h1 homeCollector_fresh show ?thesis by simp
qed

text \<open>
  C7, on the code: \<open>Describe\<close> sends four descriptors whatever the collector holds.
  Eleven of the fifteen metrics of the table are not among them, the up gauge for one,
  which every sample holds.
\<close>

theorem C7_describe_sends_four:
  "Describe c = [updatedDesc, tempDesc, humidityDesc, cotwoDesc]
   \<and> length metricsTable = 15
   \<and> distinct metricsTable
   \<and> filter (\<lambda>d. d \<notin> set (Describe c)) metricsTable =
       [netatmoUpDesc, refreshTimestampDesc, cacheTimestampDesc, noiseDesc, pressureDesc,
        windStrengthDesc, windDirectionDesc, rainDesc, batteryDesc, wifiDesc, rfDesc]
   \<and> plainGauge netatmoUpDesc 0 \<in> set (snd (Collect (initCollector iv th) now clk))"
proof -
  have "filter (\<lambda>d. d \<notin> set (Describe c)) metricsTable =
       [netatmoUpDesc, refreshTimestampDesc, cacheTimestampDesc, noiseDesc, pressureDesc,
        windStrengthDesc, windDirectionDesc, rainDesc, batteryDesc, wifiDesc, rfDesc]"
    by (simp add: Describe_def metricsTable_def sensorGauges_def desc_defs)
  moreover have "length metricsTable = 15"
    by (simp add: metricsTable_def sensorGauges_def)
  moreover have "plainGauge netatmoUpDesc 0 \<in> set (snd (Collect (initCollector iv th) now clk))"
    by (simp add: Collect_sample initCollector_def IsZero_def)
  ultimately show ?thesis
    using distinct_metricsTable by (simp add: Describe_def)
qed



text \<open>
  C9, as the code has it: \<open>Collect\<close> calls \<open>collectData\<close> for a station with the name
  of the station, and every observation of the station carries as its module label the
  \<open>ModuleName\<close> of the station's device and as its station label its \<open>StationName\<close>.
\<close>

theorem C9_station_labels:
  "(\<forall>m \<in> set (collectData c tnow dev (StationName dev)).
       labelValues m = [ModuleName dev, StationName dev])
   \<and> collectDevices c clk i (dev # rest) =
       collectData c (clk i 0) dev (StationName dev)
       @ collectModules c (clk i) 1 (StationName dev) (LinkedModules dev)
       @ collectDevices c clk (Suc i) rest"
  using collectData_member by (simp add: Let_def)

theorem C9_station_labels_witness:
  "sensorMetric tempDesc GaugeValue 21.5 ''Indoor'' ''Home''
     \<in> set (collectData homeCollector (t0 + Second) homeStation (StationName homeStation))
   \<and> labelValues (sensorMetric tempDesc GaugeValue 21.5 ''Indoor'' ''Home'') =
       [ModuleName homeStation, StationName homeStation]"
proof -
  have h: "sensorMetric tempDesc GaugeValue 21.5 ''Indoor'' ''Home''
     \<in> set (collectData homeCollector (t0 + Second) homeStation (StationName homeStation))"
    by (simp add: data_defs collectData_cases fresh_def optionalFields_def time_defs)
  from C9_station_labels [of homeCollector "t0 + Second" homeStation] h
  show ?thesis by blast
qed

text \<open>
  The station named Home, whose own module is named Indoor: the module label of its
  observations is Indoor, not the name of the station.
\<close>

theorem C9_module_label_is_module_name:
  "observedLabels updatedDesc
     (collectData homeCollector (t0 + Second) homeStation (StationName homeStation)) =
     [[''Indoor'', ''Home'']]
   \<and> StationName homeStation = ''Home''
   \<and> hd (hd (observedLabels updatedDesc
       (snd (Collect homeCollector (t0 + Second) (constClock (t0 + Second))))))
     \<noteq> StationName (hd (Devices homeData))"
proof -
  have "observedLabels updatedDesc
     (collectData homeCollector (t0 + Second) homeStation (StationName homeStation)) =
     [[''Indoor'', ''Home'']]"
    by (simp add: observedLabels_def withDesc_updated_collectData fresh_def data_defs
        time_defs sensorMetric_def)
  moreover have "observedLabels updatedDesc
       (snd (Collect homeCollector (t0 + Second) (constClock (t0 + Second)))) =
       [[''Indoor'', ''Home''], [''Outdoor'', ''Home''], [''Outdoor'', ''Home'']]"
    unfolding homeCollector_sample
    by (simp add: observedLabels_def withDesc_def plainGauge_def sensorMetric_def desc_defs)
  ultimately show ?thesis
    by (simp add: homeData_def homeStation_def)
qed

text \<open>
  C10: in every sample, a gauge of the eleven sensor readings comes with an updated
  observation that carries the same labels. An entity without a time of measurement,
  or with a stale one, sends nothing: its battery, wifi and RF readings, which are
  fields of the device and not of its measurements, are not sent either.
\<close>

theorem C10_gauges_come_with_updated:
  "(\<forall>m \<in> set (snd (Collect c now clk)). mdesc m \<in> set sensorGauges \<longrightarrow>
       (\<exists>u \<in> set (snd (Collect c now clk)).
          mdesc u = updatedDesc \<and> labelValues u = labelValues m))
   \<and> (LastMeasure (DashboardData d) = None
        \<or> (\<exists>lm. LastMeasure (DashboardData d) = Some lm
              \<and> staleThreshold c < Sub tnow (timeUnix lm 0)) \<longrightarrow>
      collectData c tnow d st = [])"
proof -
  have "\<exists>u \<in> set (snd (Collect c now clk)). mdesc u = updatedDesc \<and> labelValues u = labelValues m"
    if "m \<in> set (snd (Collect c now clk))" and "mdesc m \<in> set sensorGauges" for m
  proof -
    let ?es = "case cachedData c of None \<Rightarrow> [] | Some dc \<Rightarrow> entities clk 0 (Devices dc)"
    from that header_not_gauge
    have "m \<in> set (concat (map (\<lambda>(t, d, s). collectData c t d s) ?es))"
      by (auto simp: Collect_sample plainGauge_def)
    then obtain t e s where e: "(t, e, s) \<in> set ?es" and m: "m \<in> set (collectData c t e s)"
      by auto
    let ?u = "sensorMetric updatedDesc CounterValue
        (real_of_int (the (LastMeasure (DashboardData e)))) (ModuleName e) s"
    from collectData_member [OF m]
    have lab: "labelValues m = [ModuleName e, s]" and u: "?u \<in> set (collectData c t e s)"
      by simp_all
    from u e have "?u \<in> set (snd (Collect c now clk))"
      unfolding Collect_sample by auto
    moreover have "mdesc ?u = updatedDesc \<and> labelValues ?u = labelValues m"
      by (simp add: lab sensorMetric_def)
    ultimately show ?thesis by blast
  qed
  moreover have "collectData c tnow d st = []"
    if "LastMeasure (DashboardData d) = None
        \<or> (\<exists>lm. LastMeasure (DashboardData d) = Some lm
              \<and> staleThreshold c < Sub tnow (timeUnix lm 0))"
    using that collectData_absent collectData_stale by blast
  ultimately show ?thesis by blast
qed

theorem C10_gauges_come_with_updated_witness:
  "sensorMetric rfDesc GaugeValue 82 ''Outdoor'' ''Home''
     \<in> set (snd (Collect homeCollector (t0 + Second) (constClock (t0 + Second))))
   \<and> mdesc (sensorMetric rfDesc GaugeValue 82 ''Outdoor'' ''Home'') \<in> set sensorGauges
   \<and> (\<exists>u \<in> set (snd (Collect homeCollector (t0 + Second) (constClock (t0 + Second)))).
         mdesc u = updatedDesc
         \<and> labelValues u = labelValues (sensorMetric rfDesc GaugeValue 82 ''Outdoor'' ''Home''))
   \<and> LastMeasure (DashboardData silentModule) = None
   \<and> BatteryPercent silentModule = Some 50
   \<and> WifiStatus silentModule = Some 60
   \<and> RFStatus silentModule = Some 75
   \<and> collectData homeCollector (t0 + Second) silentModule ''Home'' = []"
proof -
  have h1: "sensorMetric rfDesc GaugeValue 82 ''Outdoor'' ''Home''
     \<in> set (snd (Collect homeCollector (t0 + Second) (constClock (t0 + Second))))"
    unfolding homeCollector_sample by simp
  have h2: "mdesc (sensorMetric rfDesc GaugeValue 82 ''Outdoor'' ''Home'') \<in> set sensorGauges"
    by (simp add: sensorMetric_def sensorGauges_def)
  have h3: "LastMeasure (DashboardData silentModule) = None"
    by (simp add: silentModule_def noData_def)
  have h4: "BatteryPercent silentModule = Some 50 \<and> WifiStatus silentModule = Some 60
      \<and> RFStatus silentModule = Some 75"
    by (simp add: silentModule_def)
  from C10_gauges_come_with_updated [of homeCollector "t0 + Second"
      "constClock (t0 + Second)" silentModule "t0 + Second" "''Home''"] h1 h2 h3 h4
  show ?thesis by blast
qed

end
